theory Spec2Isabelle
  imports Complex_Main
begin

section \<open>JavaScript values used by \<open>src/llms/openai.ts\<close>\<close>

text \<open>
  Thrown values are \<open>Error\<close> objects; the handlers of the source read nothing but
  their \<open>message\<close>.
\<close>

datatype js_error = Error (message: string)

text \<open>
  \<open>s.includes(sub)\<close> of JavaScript: \<open>sub\<close> occurs in \<open>s\<close> as a contiguous run of
  characters. The empty string occurs in every string.
\<close>

fun startsWith :: "string \<Rightarrow> string \<Rightarrow> bool" where
  "startsWith s [] = True"
| "startsWith [] (d # ds) = False"
| "startsWith (c # cs) (d # ds) = (c = d \<and> startsWith cs ds)"

fun includes_str :: "string \<Rightarrow> string \<Rightarrow> bool" where
  "includes_str [] sub = (sub = [])"
| "includes_str (c # cs) sub = (startsWith (c # cs) sub \<or> includes_str cs sub)"

section \<open>The objects handed to the completion SDK\<close>

text \<open>
  The options object of \<open>new ChatOpenAI({...})\<close>, field by field. A constructed chat
  model is identified with the options it was constructed from.
\<close>

record configuration =
  baseURL :: "string option"
  timeout :: nat

record chatOpenAI =
  modelName :: string
  openAIApiKey :: string
  temperature :: real
  configuration :: configuration

text \<open>
  \<open>TagDocumentTool\<close> is declared in \<open>../tool\<close>; this file reads its \<open>name\<close> only.
\<close>

record tool =
  name :: string

record tool_choice =
  choice_type :: string
  function_name :: string

text \<open>
  A \<open>Runnable\<close>: the chat model, \<open>model.bind({tools, tool_choice})\<close>,
  \<open>new JsonOutputKeyToolsParser({keyName, returnSingle})\<close> and \<open>a.pipe(b)\<close>.
\<close>

datatype runnable =
    ChatOpenAI chatOpenAI
  | Bind runnable "tool list" tool_choice
  | JsonOutputKeyToolsParser string bool
  | Pipe runnable runnable

fun chat_models :: "runnable \<Rightarrow> chatOpenAI list" where
  "chat_models (ChatOpenAI c) = [c]"
| "chat_models (Bind r ts tc) = chat_models r"
| "chat_models (JsonOutputKeyToolsParser k b) = []"
| "chat_models (Pipe a b) = chat_models a @ chat_models b"

datatype message_template =
    SystemMessagePromptTemplate string
  | HumanMessagePromptTemplate string

type_synonym chatPromptTemplate = "message_template list"

datatype chat_message = SystemMessage string | HumanMessage string

text \<open>
  The value the awaited chain resolves to. Behind the JSON parser it is the argument
  object of the tool call, with the existing and the new tags; from the bare chat model
  it is a chat message, which has a text and neither of these fields. \<open>generateTags\<close>
  reads \<open>response.tags\<close> and \<open>response.newTags\<close>: \<open>None\<close> is JavaScript's \<open>undefined\<close>.
\<close>

datatype response =
    ToolArguments "string list" "string list"
  | AIMessage string

fun tags :: "response \<Rightarrow> string list option" where
  "tags (ToolArguments existing new) = Some existing"
| "tags (AIMessage content) = None"

fun newTags :: "response \<Rightarrow> string list option" where
  "newTags (ToolArguments existing new) = Some new"
| "newTags (AIMessage content) = None"

section \<open>The class \<open>OpenAiLLM\<close>\<close>

text \<open>
  The base class \<open>LLM\<close> is declared in \<open>./base\<close>. The fields this file reads are
  \<open>modelInfo\<close> (with \<open>modelId\<close> and \<open>toolUse\<close>), \<open>modelName\<close> and \<open>apiKey\<close>.
\<close>

record model_info =
  modelId :: string
  toolUse :: bool

record llm =
  modelInfo :: model_info
  modelName :: string
  apiKey :: string

record openAiLLM = llm +
  baseURL :: "string option"
  model :: runnable
  prompt :: chatPromptTemplate

text \<open>
  Everything the class calls but does not define: the base-class constructor and its
  method \<open>formatOutputTags\<close>, the tool instance, the tag accessor \<open>getTagsString\<close>,
  whether \<open>new ChatOpenAI\<close> throws on given options, and what the \<open>n\<close>-th invocation of
  a model on given messages resolves to or rejects with. One invocation is one call of
  the SDK's \<open>invoke\<close>; the HTTP requests the SDK's client makes within it, none, one or
  several, are the SDK's and do not appear. \<open>getTagsString\<close> is the string the accessor
  returns at the time of the call. \<open>formatOutputTags\<close> is handed whatever the two fields
  of the response hold, \<open>undefined\<close> included.
\<close>

record env =
  super_LLM :: "string \<Rightarrow> string \<Rightarrow> llm"
  tagDocumentTool :: tool
  newChatOpenAI :: "chatOpenAI \<Rightarrow> js_error option"
  getTagsString :: string
  formatOutputTags :: "string list option \<Rightarrow> string list option \<Rightarrow> js_error + string list"
  invoke_model :: "nat \<Rightarrow> runnable \<Rightarrow> chat_message list \<Rightarrow> js_error + response"

subsection \<open>\<open>getPrompt\<close>\<close>

definition systemMessage :: string where
  \<open>systemMessage = ''\<newline>You are an expert at categorizing OSINT technical texts using tags. Your task is to create tags for the mentions of technologies, company names, suppliers and other key information. Tags are used to categorize and organize documents based on its content. The format of a tag is a pound sign followed by the category "#<category>", for example "#networking".  \<newline>Here are some existing tags that you can use to categorize the document.\<newline>\<newline>EXISTING TAGS:\<newline>```\<newline>{tagsString}\<newline>```\<newline>\<newline>Tag the users document based on its content. You can use EXISTING TAGS but also create  NEW TAGS that you come up with on your own. Ensure that the tags accurately reflect the document's primary focus and themes.\<newline>''\<close>

definition humanMessage :: string where
  \<open>humanMessage = ''DOCUMENT:\<newline>```{document}```''\<close>

definition getPrompt :: chatPromptTemplate where
  "getPrompt =
     [SystemMessagePromptTemplate systemMessage,
      HumanMessagePromptTemplate humanMessage]"

subsection \<open>\<open>getModel\<close>\<close>

text \<open>
  Reads \<open>this.modelInfo\<close>, \<open>this.apiKey\<close> and \<open>this.baseURL\<close>. The \<open>try\<close> block holds
  the constructor call only; both branches of its \<open>catch\<close> throw.
\<close>

definition getModel :: "env \<Rightarrow> model_info \<Rightarrow> string \<Rightarrow> string option \<Rightarrow> js_error + runnable" where
  "getModel e info key url =
     (let opts = \<lparr>chatOpenAI.modelName = modelId info,
                   openAIApiKey = key,
                   temperature = 0.0,
                   configuration = \<lparr>configuration.baseURL = url, timeout = 10000\<rparr>\<rparr>
      in case newChatOpenAI e opts of
           Some error \<Rightarrow>
             (if includes_str (message error) ''OpenAI or Azure OpenAI API key not found''
              then Inl (Error ''Incorrect OpenAI API key. Please check your API key.'')
              else Inl (Error ''Error while instantiating model.''))
         | None \<Rightarrow>
             (if toolUse info = True then
                (let modelWithTool =
                       Bind (ChatOpenAI opts) [tagDocumentTool e]
                         \<lparr>choice_type = ''function'',
                          function_name = name (tagDocumentTool e)\<rparr>;
                     outputParser = JsonOutputKeyToolsParser (name (tagDocumentTool e)) True;
                     modelWithOutputParser = Pipe modelWithTool outputParser
                 in Inr modelWithOutputParser)
              else Inr (ChatOpenAI opts)))"

subsection \<open>The constructor\<close>

definition OpenAiLLM :: "env \<Rightarrow> string \<Rightarrow> string \<Rightarrow> string option \<Rightarrow> js_error + openAiLLM" where
  "OpenAiLLM e mid key url =
     (let base = super_LLM e mid key
      in case getModel e (modelInfo base) (apiKey base) url of
           Inl error \<Rightarrow> Inl error
         | Inr m \<Rightarrow>
             Inr \<lparr>modelInfo = modelInfo base, modelName = llm.modelName base,
                  apiKey = apiKey base,
                  baseURL = url, model = m, prompt = getPrompt\<rparr>)"

subsection \<open>Filling the prompt\<close>

text \<open>
  Modelled from the spec: the substitution of \<open>{tagsString}\<close> and \<open>{document}\<close> is done
  by the SDK's prompt template, which is not part of this repository; section 4.1 of
  the spec calls it "straightforward string substitution". The model follows the
  placeholder convention the template strings of \<open>getPrompt\<close> are written in: a doubled
  brace is a literal brace, \<open>{name}\<close> is replaced by the value supplied for \<open>name\<close>, any
  other text is copied, and a substituted value is never scanned again.
\<close>

datatype template_node = LiteralNode string | VariableNode string

definition isBracket :: "char \<Rightarrow> bool" where
  "isBracket c = (c = CHR ''{'' \<or> c = CHR ''}'')"

definition push :: "template_node \<Rightarrow> js_error + template_node list \<Rightarrow> js_error + template_node list" where
  "push n r = (case r of Inl error \<Rightarrow> Inl error | Inr ns \<Rightarrow> Inr (n # ns))"

text \<open>
  Modelled from the spec: the template parser of the SDK. It reads the template left to
  right into literal and variable nodes and rejects an unclosed or a single brace.
\<close>

function parseFString :: "string \<Rightarrow> js_error + template_node list" where
  "parseFString [] = Inr []"
| "parseFString (c # cs) =
     (if c = CHR ''{'' \<and> cs \<noteq> [] \<and> hd cs = CHR ''{''
        then push (LiteralNode ''{'') (parseFString (tl cs))
      else if c = CHR ''}'' \<and> cs \<noteq> [] \<and> hd cs = CHR ''}''
        then push (LiteralNode ''}'') (parseFString (tl cs))
      else if c = CHR ''{'' then
        (if CHR ''}'' \<in> set cs
           then push (VariableNode (takeWhile (\<lambda>x. x \<noteq> CHR ''}'') cs))
                  (parseFString (tl (dropWhile (\<lambda>x. x \<noteq> CHR ''}'') cs)))
         else Inl (Error ''Unclosed '{' in template.''))
      else if c = CHR ''}'' then Inl (Error ''Single '}' in template.'')
      else push (LiteralNode (takeWhile (\<lambda>x. \<not> isBracket x) (c # cs)))
             (parseFString (dropWhile (\<lambda>x. \<not> isBracket x) (c # cs))))"
  by pat_completeness auto
termination
proof (relation "measure length")
  show "wf (measure length)" by simp
next
  fix c :: char and cs
  assume "c = CHR ''{'' \<and> cs \<noteq> [] \<and> hd cs = CHR ''{''"
  then show "(tl cs, c # cs) \<in> measure length" by simp
next
  fix c :: char and cs
  assume "c = CHR ''}'' \<and> cs \<noteq> [] \<and> hd cs = CHR ''}''"
  then show "(tl cs, c # cs) \<in> measure length" by simp
next
  fix c :: char and cs
  have "length (dropWhile (\<lambda>x. x \<noteq> CHR ''}'') cs) \<le> length cs"
    by (rule length_dropWhile_le)
  then show "(tl (dropWhile (\<lambda>x. x \<noteq> CHR ''}'') cs), c # cs) \<in> measure length"
    by simp
next
  fix c :: char and cs
  assume a: "c \<noteq> CHR ''{''" "c \<noteq> CHR ''}''"
  have "length (dropWhile (\<lambda>x. \<not> isBracket x) cs) \<le> length cs"
    by (rule length_dropWhile_le)
  with a show "(dropWhile (\<lambda>x. \<not> isBracket x) (c # cs), c # cs) \<in> measure length"
    by (simp add: isBracket_def)
qed

text \<open>
  Modelled from the spec: the substitution proper. Literal text is copied, a variable is
  replaced by its value as it is, and a variable without a value is an error.
\<close>

fun interpolate :: "template_node list \<Rightarrow> (string \<times> string) list \<Rightarrow> js_error + string" where
  "interpolate [] vs = Inr []"
| "interpolate (LiteralNode t # ns) vs =
     (case interpolate ns vs of Inl error \<Rightarrow> Inl error | Inr r \<Rightarrow> Inr (t @ r))"
| "interpolate (VariableNode v # ns) vs =
     (case map_of vs v of
        None \<Rightarrow> Inl (Error (''Missing value for input '' @ v))
      | Some x \<Rightarrow>
          (case interpolate ns vs of Inl error \<Rightarrow> Inl error | Inr r \<Rightarrow> Inr (x @ r)))"

definition interpolateFString :: "string \<Rightarrow> (string \<times> string) list \<Rightarrow> js_error + string" where
  "interpolateFString template vs =
     (case parseFString template of
        Inl error \<Rightarrow> Inl error
      | Inr ns \<Rightarrow> interpolate ns vs)"

text \<open>
  Modelled from the spec: the prompt template fills its message templates in order, each
  with the same values, and keeps their roles.
\<close>

fun formatMessages :: "chatPromptTemplate \<Rightarrow> (string \<times> string) list \<Rightarrow> js_error + chat_message list" where
  "formatMessages [] vs = Inr []"
| "formatMessages (SystemMessagePromptTemplate t # ts) vs =
     (case interpolateFString t vs of
        Inl error \<Rightarrow> Inl error
      | Inr s \<Rightarrow>
          (case formatMessages ts vs of
             Inl error \<Rightarrow> Inl error
           | Inr ms \<Rightarrow> Inr (SystemMessage s # ms)))"
| "formatMessages (HumanMessagePromptTemplate t # ts) vs =
     (case interpolateFString t vs of
        Inl error \<Rightarrow> Inl error
      | Inr s \<Rightarrow>
          (case formatMessages ts vs of
             Inl error \<Rightarrow> Inl error
           | Inr ms \<Rightarrow> Inr (HumanMessage s # ms)))"

text \<open>The text of \<open>systemMessage\<close> before and after its placeholder.\<close>

definition systemMessage_before :: string where
  "systemMessage_before = takeWhile (\<lambda>c. c \<noteq> CHR ''{'') systemMessage"

definition systemMessage_after :: string where
  "systemMessage_after = tl (dropWhile (\<lambda>c. c \<noteq> CHR ''}'') systemMessage)"

subsection \<open>\<open>generateTags\<close>\<close>

text \<open>
  The state a call works on: the instance, and the invocations of a model made through
  it so far (the model invoked and the messages handed to it), oldest first. The calls
  of \<open>console.error\<close> and \<open>console.debug\<close> write to the console only and are left out.
\<close>

type_synonym invocation = "runnable \<times> chat_message list"

record state =
  self :: openAiLLM
  invoked :: "invocation list"

text \<open>
  \<open>chain.invoke(values)\<close> for \<open>chain = prompt.pipe(model)\<close>: the prompt is filled, then
  the model is invoked on the messages, once. A failure of the first step invokes no
  model.
\<close>

definition chain_invoke ::
  "env \<Rightarrow> chatPromptTemplate \<times> runnable \<Rightarrow> (string \<times> string) list \<Rightarrow> invocation list
     \<Rightarrow> (js_error + response) \<times> invocation list" where
  "chain_invoke e chain vs reqs =
     (case formatMessages (fst chain) vs of
        Inl error \<Rightarrow> (Inl error, reqs)
      | Inr messages \<Rightarrow>
          (invoke_model e (length reqs) (snd chain) messages, reqs @ [(snd chain, messages)]))"

text \<open>The body of the \<open>try\<close> block: what it returns or throws, and the invocations made.\<close>

definition generateTags_try ::
  "env \<Rightarrow> string \<Rightarrow> state \<Rightarrow> (js_error + string list) \<times> invocation list" where
  "generateTags_try e documentText s =
     (let chain = (prompt (self s), model (self s));
          tagsString = getTagsString e;
          (outcome, reqs) =
             chain_invoke e chain
               [(''tagsString'', tagsString), (''document'', documentText)] (invoked s)
      in case outcome of
           Inl error \<Rightarrow> (Inl error, reqs)
         | Inr response \<Rightarrow>
             (formatOutputTags e (tags response) (newTags response), reqs))"

text \<open>The \<open>catch\<close> block: every branch throws; the value is the error thrown.\<close>

definition generateTags_catch :: "openAiLLM \<Rightarrow> js_error \<Rightarrow> js_error" where
  "generateTags_catch this error =
     (if includes_str (message error) ''Incorrect API key'' then
        Error ''Incorrect API key. Please check your API key.''
      else if includes_str (message error) ''Rate limit reached for requests'' then
        Error ''You are sending requests too quickly. Please pace your requests or read OpenAI's Rate limit guide.''
      else if includes_str (message error) ''You exceeded your current quota, please check your plan and billing details'' then
        Error ''You have run out of OpenAI credits or hit your maximum monthly spend.''
      else if includes_str (message error) ''The server had an error while processing your request'' then
        Error ''Issue on OpenAI's servers. Please retry your request after a brief wait.''
      else if includes_str (message error) ''The engine is currently overloaded, please try again later'' then
        Error ''OpenAI's servers are experiencing high traffic. Please retry your requests after a brief wait.''
      else if includes_str (message error) ''Please reduce the length'' then
        Error ''Your document is too long. Please reduce the length of your document.''
      else if includes_str (message error) ''Invalid URL'' then
        Error ''Invalid custom base URL provided. Please check your custom base URL.''
      else if includes_str (message error) ''Connection error'' \<and> baseURL this \<noteq> None
                \<and> (includes_str (llm.modelName this) ''gpt-4''
                     \<or> includes_str (llm.modelName this) ''gpt-3.5-turbo'') then
        Error ''Could not connect to custom base URL provided. Please check your custom base URL.''
      else Error ''Error while generating tags.'')"

definition generateTags :: "env \<Rightarrow> string \<Rightarrow> state \<Rightarrow> (js_error + string list) \<times> state" where
  "generateTags e documentText s =
     (case generateTags_try e documentText s of
        (Inr result, reqs) \<Rightarrow> (Inr result, s\<lparr>invoked := reqs\<rparr>)
      | (Inl error, reqs) \<Rightarrow> (Inl (generateTags_catch (self s) error), s\<lparr>invoked := reqs\<rparr>))"

section \<open>The error kinds of the specification\<close>

text \<open>
  The source throws plain \<open>Error\<close> objects; the specification labels them. Each label
  is tied to the literal of one \<open>throw\<close> statement of \<open>generateTags\<close>.
\<close>

datatype error_kind =
    InvalidCredentials | RateLimited | QuotaExhausted | ServerFault | ServerOverloaded
  | InputTooLarge | BadEndpoint | UnreachableEndpoint | GenericFailure

fun user_message :: "error_kind \<Rightarrow> string" where
  "user_message InvalidCredentials = ''Incorrect API key. Please check your API key.''"
| "user_message RateLimited = ''You are sending requests too quickly. Please pace your requests or read OpenAI's Rate limit guide.''"
| "user_message QuotaExhausted = ''You have run out of OpenAI credits or hit your maximum monthly spend.''"
| "user_message ServerFault = ''Issue on OpenAI's servers. Please retry your request after a brief wait.''"
| "user_message ServerOverloaded = ''OpenAI's servers are experiencing high traffic. Please retry your requests after a brief wait.''"
| "user_message InputTooLarge = ''Your document is too long. Please reduce the length of your document.''"
| "user_message BadEndpoint = ''Invalid custom base URL provided. Please check your custom base URL.''"
| "user_message UnreachableEndpoint = ''Could not connect to custom base URL provided. Please check your custom base URL.''"
| "user_message GenericFailure = ''Error while generating tags.''"

text \<open>
  The substrings the \<open>catch\<close> block tests, in the order of its \<open>else if\<close> chain. The
  first seven are tested alone; the last one is tested together with conditions on
  \<open>baseURL\<close> and \<open>modelName\<close>.
\<close>

definition unconditional_branches :: "(string \<times> error_kind) list" where
  "unconditional_branches =
     [(''Incorrect API key'', InvalidCredentials),
      (''Rate limit reached for requests'', RateLimited),
      (''You exceeded your current quota, please check your plan and billing details'', QuotaExhausted),
      (''The server had an error while processing your request'', ServerFault),
      (''The engine is currently overloaded, please try again later'', ServerOverloaded),
      (''Please reduce the length'', InputTooLarge),
      (''Invalid URL'', BadEndpoint)]"

definition branches :: "(string \<times> error_kind) list" where
  "branches = unconditional_branches @ [(''Connection error'', UnreachableEndpoint)]"

definition contains :: "string \<Rightarrow> string \<times> error_kind \<Rightarrow> bool" where
  "contains m b = includes_str m (fst b)"

section \<open>Successive calls\<close>

fun calls :: "(env \<times> string) list \<Rightarrow> state \<Rightarrow> state" where
  "calls [] s = s"
| "calls ((e, documentText) # rest) s = calls rest (snd (generateTags e documentText s))"

section \<open>A concrete environment and instance\<close>

text \<open>
  An environment whose base class takes the model identifier as the model name and
  whose \<open>formatOutputTags\<close> appends the new tags to the existing ones and throws a
  \<open>TypeError\<close> when a field is \<open>undefined\<close>, whose SDK constructor never throws and whose
  every invocation of a model has the given outcome; and the instance its constructor
  builds for model \<open>gpt-4\<close>.
\<close>

fun example_formatOutputTags :: "string list option \<Rightarrow> string list option \<Rightarrow> js_error + string list" where
  "example_formatOutputTags (Some existing) (Some new) = Inr (existing @ new)"
| "example_formatOutputTags None new = Inl (Error ''tags is not iterable'')"
| "example_formatOutputTags (Some existing) None = Inl (Error ''newTags is not iterable'')"

definition example_env :: "bool \<Rightarrow> js_error + response \<Rightarrow> env" where
  "example_env tool_use outcome =
     \<lparr>super_LLM = (\<lambda>mid key.
         \<lparr>modelInfo = \<lparr>modelId = mid, toolUse = tool_use\<rparr>, modelName = mid, apiKey = key\<rparr>),
      tagDocumentTool = \<lparr>name = ''tagDocument''\<rparr>,
      newChatOpenAI = (\<lambda>opts. None),
      getTagsString = ''#networking'',
      formatOutputTags = example_formatOutputTags,
      invoke_model = (\<lambda>n r ms. outcome)\<rparr>"

definition example_options :: "string option \<Rightarrow> chatOpenAI" where
  "example_options url =
     \<lparr>chatOpenAI.modelName = ''gpt-4'', openAIApiKey = ''sk-example'', temperature = 0,
      configuration = \<lparr>configuration.baseURL = url, timeout = 10000\<rparr>\<rparr>"

definition example_llm :: "bool \<Rightarrow> string option \<Rightarrow> openAiLLM" where
  "example_llm tool_use url =
     \<lparr>modelInfo = \<lparr>modelId = ''gpt-4'', toolUse = tool_use\<rparr>, modelName = ''gpt-4'',
      apiKey = ''sk-example'', baseURL = url,
      model =
        (if tool_use
         then Pipe (Bind (ChatOpenAI (example_options url)) [\<lparr>name = ''tagDocument''\<rparr>]
                      \<lparr>choice_type = ''function'', function_name = ''tagDocument''\<rparr>)
                (JsonOutputKeyToolsParser ''tagDocument'' True)
         else ChatOpenAI (example_options url)),
      prompt = getPrompt\<rparr>"

definition example_state :: "bool \<Rightarrow> string option \<Rightarrow> state" where
  "example_state tool_use url = \<lparr>self = example_llm tool_use url, invoked = []\<rparr>"

section \<open>Auxiliary facts\<close>

lemma startsWith_iff: "startsWith s p \<longleftrightarrow> (\<exists>b. s = p @ b)"
  by (induction s p rule: startsWith.induct) auto

lemma includes_str_iff: "includes_str s sub \<longleftrightarrow> (\<exists>a b. s = a @ sub @ b)"
proof (induction s)
  case Nil
  then show ?case by auto
next
  case (Cons c cs)
  show ?case
  proof
    assume "includes_str (c # cs) sub"
    then consider "startsWith (c # cs) sub" | "includes_str cs sub" by auto
    then show "\<exists>a b. c # cs = a @ sub @ b"
    proof cases
      case 1
      then obtain b where "c # cs = sub @ b" using startsWith_iff by blast
      then have "c # cs = [] @ sub @ b" by simp
      then show ?thesis by blast
    next
      case 2
      then obtain a b where "cs = a @ sub @ b" using Cons.IH by blast
      then have "c # cs = (c # a) @ sub @ b" by simp
      then show ?thesis by blast
    qed
  next
    assume "\<exists>a b. c # cs = a @ sub @ b"
    then obtain a b where ab: "c # cs = a @ sub @ b" by blast
    show "includes_str (c # cs) sub"
    proof (cases a)
      case Nil
      with ab have "startsWith (c # cs) sub" using startsWith_iff by auto
      then show ?thesis by simp
    next
      case (Cons x a')
      with ab have "cs = a' @ sub @ b" by simp
      then have "includes_str cs sub" using Cons.IH by blast
      then show ?thesis by simp
    qed
  qed
qed

lemma generateTags_caught:
  "fst (generateTags_try e d s) = Inl error \<Longrightarrow>
   fst (generateTags e d s) = Inl (generateTags_catch (self s) error)"
  by (cases "generateTags_try e d s") (simp add: generateTags_def)

lemma generateTags_returned:
  "fst (generateTags_try e d s) = Inr r \<Longrightarrow> fst (generateTags e d s) = Inr r"
  by (cases "generateTags_try e d s") (simp add: generateTags_def)

lemma catch_as_find:
  "generateTags_catch this (Error m) =
     (case find (contains m) unconditional_branches of
        Some b \<Rightarrow> Error (user_message (snd b))
      | None \<Rightarrow>
          if includes_str m ''Connection error'' \<and> baseURL this \<noteq> None
             \<and> (includes_str (llm.modelName this) ''gpt-4''
                  \<or> includes_str (llm.modelName this) ''gpt-3.5-turbo'')
          then Error (user_message UnreachableEndpoint)
          else Error (user_message GenericFailure))"
  unfolding generateTags_catch_def unconditional_branches_def contains_def
  by auto

lemma catch_first_match:
  "find (contains m) unconditional_branches = Some (t, k) \<Longrightarrow>
   generateTags_catch this (Error m) = Error (user_message k)"
  by (simp add: catch_as_find)

lemma find_branches_None:
  "find (contains m) branches = None \<longleftrightarrow>
   find (contains m) unconditional_branches = None \<and> \<not> includes_str m ''Connection error''"
  by (auto simp: branches_def find_None_iff contains_def)

lemma catch_no_match:
  "find (contains m) branches = None \<Longrightarrow>
   generateTags_catch this (Error m) = Error (user_message GenericFailure)"
  by (simp add: catch_as_find find_branches_None)

lemma parse_humanMessage:
  "parseFString humanMessage =
     Inr [LiteralNode ''DOCUMENT:\<newline>```'', VariableNode ''document'', LiteralNode ''```'']"
  by (simp add: humanMessage_def isBracket_def push_def)

lemma parse_systemMessage:
  "parseFString systemMessage =
     Inr [LiteralNode systemMessage_before, VariableNode ''tagsString'',
          LiteralNode systemMessage_after]"
  by code_simp

lemma formatMessages_getPrompt:
  "formatMessages getPrompt [(''tagsString'', t), (''document'', d)] =
     Inr [SystemMessage (systemMessage_before @ t @ systemMessage_after),
          HumanMessage (''DOCUMENT:\<newline>```'' @ d @ ''```'')]"
  by (simp add: getPrompt_def interpolateFString_def parse_humanMessage parse_systemMessage)

lemma example_constructed:
  "OpenAiLLM (example_env tu out) ''gpt-4'' ''sk-example'' url = Inr (example_llm tu url)"
  by (simp add: OpenAiLLM_def getModel_def example_env_def example_llm_def example_options_def)

lemma example_try:
  "fst (generateTags_try (example_env tu (Inl error)) d (example_state tu url)) = Inl error"
  by (simp add: generateTags_try_def chain_invoke_def example_env_def example_state_def
      example_llm_def formatMessages_getPrompt)

lemma example_self: "self (example_state tu url) = example_llm tu url"
  by (simp add: example_state_def)

lemma example_rethrown:
  "fst (generateTags (example_env tu (Inl error)) d (example_state tu url)) =
     Inl (generateTags_catch (example_llm tu url) error)"
  using generateTags_caught [OF example_try] by (simp add: example_self)

lemma example_fields:
  "baseURL (example_llm tu url) = url" "llm.modelName (example_llm tu url) = ''gpt-4''"
  by (simp_all add: example_llm_def)

lemma find_append_Some: "find P xs = Some b \<Longrightarrow> find P (xs @ ys) = Some b"
  by (induction xs) auto

lemma find_branches_Some:
  "find (contains m) unconditional_branches = Some b \<Longrightarrow> find (contains m) branches = Some b"
  unfolding branches_def by (rule find_append_Some)

lemma filter_append_unmatched: "find P xs = None \<Longrightarrow> length (filter P (xs @ [y])) \<le> 1"
  by (simp add: find_None_iff filter_empty_conv)

lemma filter_branches_unmatched:
  "find (contains m) unconditional_branches = None \<Longrightarrow>
   length (filter (contains m) branches) \<le> 1"
  unfolding branches_def by (rule filter_append_unmatched)

lemma catch_kind: "\<exists>k. generateTags_catch this error = Error (user_message k)"
proof (cases error)
  case (Error m)
  show ?thesis
  proof (cases "find (contains m) unconditional_branches")
    case None
    with Error have "generateTags_catch this error = Error (user_message UnreachableEndpoint)
        \<or> generateTags_catch this error = Error (user_message GenericFailure)"
      by (simp add: catch_as_find)
    then show ?thesis by blast
  next
    case (Some b)
    with Error have "generateTags_catch this error = Error (user_message (snd b))"
      by (simp add: catch_as_find)
    then show ?thesis by blast
  qed
qed

lemma catch_reads:
  "baseURL a = baseURL b \<Longrightarrow> llm.modelName a = llm.modelName b \<Longrightarrow>
   generateTags_catch a error = generateTags_catch b error"
  by (simp add: generateTags_catch_def)

lemma try_invoked:
  assumes "formatMessages (prompt (self s))
             [(''tagsString'', getTagsString e), (''document'', d)] = Inr messages"
  shows "snd (generateTags_try e d s) = invoked s @ [(model (self s), messages)]"
  using assms
  by (simp add: generateTags_try_def chain_invoke_def split: sum.splits)

lemma try_invocation_failed:
  assumes "formatMessages (prompt (self s))
             [(''tagsString'', getTagsString e), (''document'', d)] = Inr messages"
    and "invoke_model e (length (invoked s)) (model (self s)) messages = Inl error"
  shows "fst (generateTags_try e d s) = Inl error"
  using assms by (simp add: generateTags_try_def chain_invoke_def)

lemma try_invocation_answered:
  assumes "formatMessages (prompt (self s))
             [(''tagsString'', getTagsString e), (''document'', d)] = Inr messages"
    and "invoke_model e (length (invoked s)) (model (self s)) messages = Inr response"
  shows "fst (generateTags_try e d s) = formatOutputTags e (tags response) (newTags response)"
  using assms by (simp add: generateTags_try_def chain_invoke_def)

lemma generateTags_state:
  "snd (generateTags e d s) = s\<lparr>invoked := snd (generateTags_try e d s)\<rparr>"
  by (cases "generateTags_try e d s") (simp add: generateTags_def split: sum.splits)

lemma generateTags_self: "self (snd (generateTags e d s)) = self s"
  by (simp add: generateTags_state)

lemma calls_self: "self (calls cs s) = self s"
  by (induction cs s rule: calls.induct) (simp_all add: generateTags_self)

lemma example_prompt:
  "formatMessages (prompt (self (example_state tu url)))
     [(''tagsString'', getTagsString (example_env tu out)), (''document'', d)] =
   Inr [SystemMessage (systemMessage_before @ ''#networking'' @ systemMessage_after),
        HumanMessage (''DOCUMENT:\<newline>```'' @ d @ ''```'')]"
  by (simp add: example_state_def example_llm_def example_env_def formatMessages_getPrompt)

lemma constructed_fields:
  assumes "OpenAiLLM e mid key url = Inr inst"
  shows "baseURL inst = url" and "prompt inst = getPrompt"
    and "getModel e (modelInfo inst) (apiKey inst) url = Inr (model inst)"
  using assms by (auto simp: OpenAiLLM_def Let_def split: sum.splits)

lemma getModel_cases:
  assumes "getModel e info key url = Inr r"
  shows "\<exists>c. temperature c = 0 \<and> timeout (configuration c) = 10000
           \<and> chatOpenAI.modelName c = modelId info \<and> openAIApiKey c = key
           \<and> configuration.baseURL (configuration c) = url
           \<and> (if toolUse info
                then r = Pipe (Bind (ChatOpenAI c) [tagDocumentTool e]
                                 \<lparr>choice_type = ''function'',
                                  function_name = name (tagDocumentTool e)\<rparr>)
                           (JsonOutputKeyToolsParser (name (tagDocumentTool e)) True)
                else r = ChatOpenAI c)"
  using assms
  by (auto simp: getModel_def Let_def split: option.splits if_splits)

lemma example_getModel:
  "getModel (example_env tu out) (modelInfo (self (example_state tu url)))
     (apiKey (self (example_state tu url))) (baseURL (self (example_state tu url))) =
   Inr (model (self (example_state tu url)))"
  by (simp add: getModel_def example_env_def example_state_def example_llm_def example_options_def)

lemma tool_path_result:
  assumes "getModel e (modelInfo (self s)) (apiKey (self s)) (baseURL (self s)) = Inr (model (self s))"
    and "toolUse (modelInfo (self s))"
    and "formatMessages (prompt (self s))
           [(''tagsString'', getTagsString e), (''document'', d)] = Inr messages"
    and "invoke_model e (length (invoked s)) (model (self s)) messages =
           Inr (ToolArguments existing new)"
  shows "\<exists>c. model (self s) =
           Pipe (Bind (ChatOpenAI c) [tagDocumentTool e]
                   \<lparr>choice_type = ''function'', function_name = name (tagDocumentTool e)\<rparr>)
                (JsonOutputKeyToolsParser (name (tagDocumentTool e)) True)"
    and "fst (generateTags_try e d s) = formatOutputTags e (Some existing) (Some new)"
proof -
  from getModel_cases [OF assms(1)] assms(2)
  show "\<exists>c. model (self s) =
           Pipe (Bind (ChatOpenAI c) [tagDocumentTool e]
                   \<lparr>choice_type = ''function'', function_name = name (tagDocumentTool e)\<rparr>)
                (JsonOutputKeyToolsParser (name (tagDocumentTool e)) True)"
    by auto
  from try_invocation_answered [OF assms(3,4)]
  show "fst (generateTags_try e d s) = formatOutputTags e (Some existing) (Some new)"
    by simp
qed

lemma includes_str_middle: "includes_str (a @ x @ b) x"
  using includes_str_iff by blast

lemma systemMessage_split:
  "systemMessage = systemMessage_before @ ''{tagsString}'' @ systemMessage_after"
  by code_simp

lemma user_message_inj: "user_message a = user_message b \<Longrightarrow> a = b"
  by (cases a; cases b; simp)

section \<open>The claims\<close>

text \<open>
  Throughout, "an error with message \<open>m\<close> is caught" is
  \<open>fst (generateTags_try e documentText s) = Inl (Error m)\<close>: the body of the \<open>try\<close>
  block threw it, be it the remote call or any other statement of the block.
\<close>

subsection \<open>C1\<close>

text \<open>
  Claim C1, as amended. For each of the seven substrings that the \<open>catch\<close> block of
  \<open>generateTags\<close> tests on their own (\<open>unconditional_branches\<close>), an error whose
  message contains that substring and none of the substrings tested before it is
  re-thrown with the user-facing message of the corresponding kind.
\<close>

theorem tested_substring_rethrown_as_its_kind:
  assumes "fst (generateTags_try e documentText s) = Inl (Error m)"
    and "i < length unconditional_branches"
    and "contains m (unconditional_branches ! i)"
    and "\<forall>j<i. \<not> contains m (unconditional_branches ! j)"
  shows "fst (generateTags e documentText s) =
           Inl (Error (user_message (snd (unconditional_branches ! i))))"
proof -
  have "find (contains m) unconditional_branches = Some (unconditional_branches ! i)"
    using assms(2-4) by (auto simp: find_Some_iff)
  then have "find (contains m) unconditional_branches =
      Some (fst (unconditional_branches ! i), snd (unconditional_branches ! i))"
    by simp
  then have "generateTags_catch (self s) (Error m) =
      Error (user_message (snd (unconditional_branches ! i)))"
    by (rule catch_first_match)
  with generateTags_caught [OF assms(1)] show ?thesis by simp
qed

theorem tested_substring_rethrown_as_its_kind_witness:
  "fst (generateTags_try (example_env True (Inl (Error ''Rate limit reached for requests'')))
          ''document text'' (example_state True None)) = Inl (Error ''Rate limit reached for requests'')
   \<and> contains ''Rate limit reached for requests'' (unconditional_branches ! 1)
   \<and> snd (unconditional_branches ! 1) = RateLimited
   \<and> fst (generateTags (example_env True (Inl (Error ''Rate limit reached for requests'')))
          ''document text'' (example_state True None)) =
       Inl (Error ''You are sending requests too quickly. Please pace your requests or read OpenAI's Rate limit guide.'')"
proof -
  have h1: "fst (generateTags_try (example_env True (Inl (Error ''Rate limit reached for requests'')))
          ''document text'' (example_state True None)) = Inl (Error ''Rate limit reached for requests'')"
    by (rule example_try)
  have h2: "1 < length unconditional_branches"
    by (simp add: unconditional_branches_def)
  have h3: "contains ''Rate limit reached for requests'' (unconditional_branches ! 1)"
    by (simp add: unconditional_branches_def contains_def)
  have h4: "\<forall>j<1. \<not> contains ''Rate limit reached for requests'' (unconditional_branches ! j)"
    by (simp add: unconditional_branches_def contains_def)
  have k: "snd (unconditional_branches ! 1) = RateLimited"
    by (simp add: unconditional_branches_def)
  from tested_substring_rethrown_as_its_kind [OF h1 h2 h3 h4] h1 h3 k show ?thesis by simp
qed

text \<open>
  Claim C1 as written fails in two ways. The table of the specification shortens five
  of the substrings: a message that contains "Rate limit reached" but not "Rate limit
  reached for requests" is re-thrown as the generic failure. And a message that contains
  both "Invalid URL" and "Incorrect API key" is re-thrown as invalid credentials, not as
  a bad endpoint.
\<close>

theorem table_substring_counterexample:
  "includes_str ''Rate limit reached for gpt-4 on tokens per min'' ''Rate limit reached''
   \<and> fst (generateTags
            (example_env True (Inl (Error ''Rate limit reached for gpt-4 on tokens per min'')))
            ''document text'' (example_state True None)) =
         Inl (Error (user_message GenericFailure))
   \<and> user_message GenericFailure \<noteq> user_message RateLimited
   \<and> includes_str ''Invalid URL: Incorrect API key provided'' ''Invalid URL''
   \<and> fst (generateTags
            (example_env True (Inl (Error ''Invalid URL: Incorrect API key provided'')))
            ''document text'' (example_state True None)) =
         Inl (Error (user_message InvalidCredentials))
   \<and> user_message InvalidCredentials \<noteq> user_message BadEndpoint"
  by (simp add: example_rethrown generateTags_catch_def example_fields)

subsection \<open>C2\<close>

text \<open>
  Claim C2. For every tag catalog string and every document string, filling the template
  of \<open>getPrompt\<close> succeeds and gives two messages; the system message contains the
  catalog text and the human message contains the document text, each as a contiguous,
  unaltered run. On an instance whose prompt is that of \<open>getPrompt\<close>, these two messages
  are what \<open>generateTags\<close> hands to the model.
\<close>

theorem filled_prompt_contains_catalog_and_document:
  "\<exists>system human.
     formatMessages getPrompt [(''tagsString'', tagsString), (''document'', documentText)] =
       Inr [SystemMessage system, HumanMessage human]
     \<and> includes_str system tagsString
     \<and> includes_str human documentText
     \<and> (prompt (self s) = getPrompt \<and> getTagsString e = tagsString \<longrightarrow>
          invoked (snd (generateTags e documentText s)) =
            invoked s @ [(model (self s), [SystemMessage system, HumanMessage human])])"
proof -
  let ?system = "systemMessage_before @ tagsString @ systemMessage_after"
  let ?human = "''DOCUMENT:\<newline>```'' @ documentText @ ''```''"
  have f: "formatMessages getPrompt [(''tagsString'', tagsString), (''document'', documentText)] =
       Inr [SystemMessage ?system, HumanMessage ?human]"
    by (rule formatMessages_getPrompt)
  have "includes_str ?system tagsString" and "includes_str ?human documentText"
    by (rule includes_str_middle)+
  moreover have "invoked (snd (generateTags e documentText s)) =
            invoked s @ [(model (self s), [SystemMessage ?system, HumanMessage ?human])]"
    if "prompt (self s) = getPrompt" and "getTagsString e = tagsString"
  proof -
    from that f have "formatMessages (prompt (self s))
        [(''tagsString'', getTagsString e), (''document'', documentText)] =
        Inr [SystemMessage ?system, HumanMessage ?human]"
      by simp
    then show ?thesis by (simp add: generateTags_state try_invoked)
  qed
  ultimately show ?thesis using f by blast
qed

theorem filled_prompt_contains_catalog_and_document_witness:
  "includes_str (systemMessage_before @ ''#networking'' @ systemMessage_after) ''#networking''
   \<and> includes_str ''DOCUMENT:\<newline>```Notes on BGP routing```'' ''Notes on BGP routing''
   \<and> invoked (snd (generateTags (example_env True (Inl (Error ''Invalid URL'')))
                   ''Notes on BGP routing'' (example_state True None))) =
       [(model (example_llm True None),
         [SystemMessage (systemMessage_before @ ''#networking'' @ systemMessage_after),
          HumanMessage ''DOCUMENT:\<newline>```Notes on BGP routing```''])]"
proof -
  let ?e = "example_env True (Inl (Error ''Invalid URL''))"
  let ?s = "example_state True None"
  have p: "prompt (self ?s) = getPrompt" and g: "getTagsString ?e = ''#networking''"
    and n: "invoked ?s = []" and m: "model (self ?s) = model (example_llm True None)"
    by (simp_all add: example_state_def example_llm_def example_env_def)
  from filled_prompt_contains_catalog_and_document
         [of "''#networking''" "''Notes on BGP routing''" ?s ?e]
  obtain system human where
    f: "formatMessages getPrompt [(''tagsString'', ''#networking''), (''document'', ''Notes on BGP routing'')] =
          Inr [SystemMessage system, HumanMessage human]"
    and i: "includes_str system ''#networking''" "includes_str human ''Notes on BGP routing''"
    and r: "prompt (self ?s) = getPrompt \<and> getTagsString ?e = ''#networking'' \<longrightarrow>
          invoked (snd (generateTags ?e ''Notes on BGP routing'' ?s)) =
            invoked ?s @ [(model (self ?s), [SystemMessage system, HumanMessage human])]"
    by blast
  from f have eq: "system = systemMessage_before @ ''#networking'' @ systemMessage_after"
      "human = ''DOCUMENT:\<newline>```Notes on BGP routing```''"
    by (simp_all add: formatMessages_getPrompt)
  from r p g n m have "invoked (snd (generateTags ?e ''Notes on BGP routing'' ?s)) =
      [(model (example_llm True None), [SystemMessage system, HumanMessage human])]"
    by simp
  with i eq show ?thesis by simp
qed

subsection \<open>C3\<close>

text \<open>
  Claim C3. The claim holds for \<open>getModel\<close> (\<open>getModel_cases\<close>) and for the tool-use path
  (\<open>tool_path_result\<close>), and fails for \<open>generateTags\<close> on the other path. When the
  tool-use flag is false, the instance's model is the bare chat model and its answer is
  a chat message. \<open>generateTags\<close> reads the fields \<open>tags\<close> and \<open>newTags\<close> of that message,
  which it does not have, and returns or re-throws what \<open>formatOutputTags\<close> makes of two
  \<open>undefined\<close> values: the outcome is the same for every reply, no list is parsed from
  its text.
\<close>

theorem plain_reply_is_never_parsed:
  assumes "getModel e (modelInfo (self s)) (apiKey (self s)) (baseURL (self s)) = Inr (model (self s))"
    and "\<not> toolUse (modelInfo (self s))"
    and "formatMessages (prompt (self s))
           [(''tagsString'', getTagsString e), (''document'', documentText)] = Inr messages"
    and "invoke_model e (length (invoked s)) (model (self s)) messages = Inr (AIMessage content)"
  shows "(\<exists>c. model (self s) = ChatOpenAI c)
         \<and> fst (generateTags e documentText s) =
             (case formatOutputTags e None None of
                Inl error \<Rightarrow> Inl (generateTags_catch (self s) error)
              | Inr result \<Rightarrow> Inr result)"
proof -
  from getModel_cases [OF assms(1)] assms(2) have "\<exists>c. model (self s) = ChatOpenAI c"
    by auto
  moreover have t: "fst (generateTags_try e documentText s) = formatOutputTags e None None"
    using try_invocation_answered [OF assms(3,4)] by simp
  have "fst (generateTags e documentText s) =
             (case formatOutputTags e None None of
                Inl error \<Rightarrow> Inl (generateTags_catch (self s) error)
              | Inr result \<Rightarrow> Inr result)"
  proof (cases "formatOutputTags e None None")
    case (Inl error)
    with t generateTags_caught [of e documentText s error] show ?thesis by simp
  next
    case (Inr result)
    with t generateTags_returned [of e documentText s result] show ?thesis by simp
  qed
  ultimately show ?thesis by blast
qed

theorem plain_reply_is_never_parsed_witness:
  "model (self (example_state False None)) = ChatOpenAI (example_options None)
   \<and> invoke_model (example_env False (Inr (AIMessage ''#networking #bgp'')))
        (length (invoked (example_state False None))) (model (self (example_state False None)))
        [SystemMessage (systemMessage_before @ ''#networking'' @ systemMessage_after),
         HumanMessage (''DOCUMENT:\<newline>```'' @ ''Notes on BGP routing'' @ ''```'')]
      = Inr (AIMessage ''#networking #bgp'')
   \<and> fst (generateTags (example_env False (Inr (AIMessage ''#networking #bgp'')))
          ''Notes on BGP routing'' (example_state False None)) =
       Inl (Error ''Error while generating tags.'')"
proof -
  let ?e = "example_env False (Inr (AIMessage ''#networking #bgp''))"
  let ?s = "example_state False None"
  note h1 = example_getModel [of False "Inr (AIMessage ''#networking #bgp'')" None]
  have h2: "\<not> toolUse (modelInfo (self ?s))"
    by (simp add: example_state_def example_llm_def)
  note h3 = example_prompt [of False None "Inr (AIMessage ''#networking #bgp'')"
      "''Notes on BGP routing''"]
  have h4: "invoke_model ?e (length (invoked ?s)) (model (self ?s))
        [SystemMessage (systemMessage_before @ ''#networking'' @ systemMessage_after),
         HumanMessage (''DOCUMENT:\<newline>```'' @ ''Notes on BGP routing'' @ ''```'')]
      = Inr (AIMessage ''#networking #bgp'')"
    by (simp add: example_env_def)
  have m: "model (self ?s) = ChatOpenAI (example_options None)"
    by (simp add: example_state_def example_llm_def)
  have f: "formatOutputTags ?e None None = Inl (Error ''tags is not iterable'')"
    by (simp add: example_env_def)
  from plain_reply_is_never_parsed [OF h1 h2 h3 h4] f
  have "fst (generateTags ?e ''Notes on BGP routing'' ?s) =
       Inl (Error ''Error while generating tags.'')"
    by (simp add: generateTags_catch_def)
  with m h4 show ?thesis by blast
qed

subsection \<open>C4\<close>

text \<open>
  Claim C4. The \<open>catch\<close> block tests its substrings in the order of \<open>branches\<close>. For every
  caught error whose message contains more than one of them, the error thrown is the one
  of the first branch, in that order, whose substring the message contains.
\<close>

theorem first_matching_substring_wins:
  assumes "fst (generateTags_try e documentText s) = Inl (Error m)"
    and "2 \<le> length (filter (contains m) branches)"
  shows "\<exists>t k. find (contains m) branches = Some (t, k)
           \<and> fst (generateTags e documentText s) = Inl (Error (user_message k))"
proof (cases "find (contains m) unconditional_branches")
  case None
  then have "length (filter (contains m) branches) \<le> 1"
    by (rule filter_branches_unmatched)
  with assms(2) show ?thesis by simp
next
  case (Some b)
  obtain t k where b: "b = (t, k)" by (cases b)
  from Some b have "generateTags_catch (self s) (Error m) = Error (user_message k)"
    by (simp add: catch_first_match)
  with generateTags_caught [OF assms(1)]
  have "fst (generateTags e documentText s) = Inl (Error (user_message k))" by simp
  moreover from Some b have "find (contains m) branches = Some (t, k)"
    by (simp add: find_branches_Some)
  ultimately show ?thesis by blast
qed

theorem first_matching_substring_wins_witness:
  "fst (generateTags_try
          (example_env True (Inl (Error ''Connection error. Invalid URL. Rate limit reached for requests'')))
          ''document text'' (example_state True (Some ''http://localhost:8080/v1''))) =
     Inl (Error ''Connection error. Invalid URL. Rate limit reached for requests'')
   \<and> length (filter (contains ''Connection error. Invalid URL. Rate limit reached for requests'') branches) = 3
   \<and> find (contains ''Connection error. Invalid URL. Rate limit reached for requests'') branches =
       Some (''Rate limit reached for requests'', RateLimited)
   \<and> fst (generateTags
          (example_env True (Inl (Error ''Connection error. Invalid URL. Rate limit reached for requests'')))
          ''document text'' (example_state True (Some ''http://localhost:8080/v1''))) =
       Inl (Error (user_message RateLimited))"
proof -
  let ?m = "''Connection error. Invalid URL. Rate limit reached for requests''"
  have h1: "fst (generateTags_try (example_env True (Inl (Error ?m)))
          ''document text'' (example_state True (Some ''http://localhost:8080/v1''))) = Inl (Error ?m)"
    by (rule example_try)
  have n: "length (filter (contains ?m) branches) = 3"
    by (simp add: branches_def unconditional_branches_def contains_def)
  then have h2: "2 \<le> length (filter (contains ?m) branches)" by simp
  have f: "find (contains ?m) branches = Some (''Rate limit reached for requests'', RateLimited)"
    by (simp add: branches_def unconditional_branches_def contains_def)
  from first_matching_substring_wins [OF h1 h2] f
  have "fst (generateTags (example_env True (Inl (Error ?m)))
          ''document text'' (example_state True (Some ''http://localhost:8080/v1''))) =
       Inl (Error (user_message RateLimited))"
    by auto
  with h1 n f show ?thesis by blast
qed

subsection \<open>C5\<close>

text \<open>
  Claim C5. An error caught in \<open>generateTags\<close> whose message contains none of the
  substrings the \<open>catch\<close> block tests is re-thrown as the generic failure, with the
  message "Error while generating tags.".
\<close>

theorem unmatched_error_is_generic:
  assumes "fst (generateTags_try e documentText s) = Inl (Error m)"
    and "\<forall>b \<in> set branches. \<not> contains m b"
  shows "fst (generateTags e documentText s) = Inl (Error (user_message GenericFailure))"
proof -
  from assms(2) have "find (contains m) branches = None"
    by (simp add: find_None_iff)
  then have "generateTags_catch (self s) (Error m) = Error (user_message GenericFailure)"
    by (rule catch_no_match)
  with generateTags_caught [OF assms(1)] show ?thesis by simp
qed

theorem unmatched_error_is_generic_witness:
  "fst (generateTags_try (example_env True (Inl (Error ''Some unrelated vendor text'')))
          ''document text'' (example_state True None)) = Inl (Error ''Some unrelated vendor text'')
   \<and> find (contains ''Some unrelated vendor text'') branches = None
   \<and> fst (generateTags (example_env True (Inl (Error ''Some unrelated vendor text'')))
          ''document text'' (example_state True None)) = Inl (Error ''Error while generating tags.'')"
proof -
  have h1: "fst (generateTags_try (example_env True (Inl (Error ''Some unrelated vendor text'')))
          ''document text'' (example_state True None)) = Inl (Error ''Some unrelated vendor text'')"
    by (rule example_try)
  have h2: "\<forall>b \<in> set branches. \<not> contains ''Some unrelated vendor text'' b"
    by (simp add: branches_def unconditional_branches_def contains_def)
  from unmatched_error_is_generic [OF h1 h2] h1 h2 show ?thesis
    by (simp add: find_None_iff)
qed

subsection \<open>C6\<close>

text \<open>
  Claim C6, as amended. An error whose message contains "Connection error" and none of
  the seven substrings tested before it is re-thrown as the unreachable-endpoint kind
  if and only if \<open>baseURL\<close> is not null and the model name contains "gpt-4" or
  "gpt-3.5-turbo"; otherwise it is re-thrown as the generic failure.
\<close>

theorem connection_error_needs_custom_endpoint:
  assumes "fst (generateTags_try e documentText s) = Inl (Error m)"
    and "includes_str m ''Connection error''"
    and "\<forall>b \<in> set unconditional_branches. \<not> contains m b"
  shows "(fst (generateTags e documentText s) = Inl (Error (user_message UnreachableEndpoint))
            \<longleftrightarrow> baseURL (self s) \<noteq> None
                \<and> (includes_str (llm.modelName (self s)) ''gpt-4''
                     \<or> includes_str (llm.modelName (self s)) ''gpt-3.5-turbo''))
         \<and> (\<not> (baseURL (self s) \<noteq> None
                \<and> (includes_str (llm.modelName (self s)) ''gpt-4''
                     \<or> includes_str (llm.modelName (self s)) ''gpt-3.5-turbo''))
              \<longrightarrow> fst (generateTags e documentText s) = Inl (Error (user_message GenericFailure)))"
proof -
  from assms(3) have "find (contains m) unconditional_branches = None"
    by (simp add: find_None_iff)
  with assms(2) have "generateTags_catch (self s) (Error m) =
      (if baseURL (self s) \<noteq> None
          \<and> (includes_str (llm.modelName (self s)) ''gpt-4''
               \<or> includes_str (llm.modelName (self s)) ''gpt-3.5-turbo'')
       then Error (user_message UnreachableEndpoint)
       else Error (user_message GenericFailure))"
    by (simp add: catch_as_find)
  with generateTags_caught [OF assms(1)] show ?thesis by auto
qed

theorem connection_error_needs_custom_endpoint_witness:
  "fst (generateTags (example_env True (Inl (Error ''Connection error.'')))
          ''document text'' (example_state True (Some ''http://localhost:8080/v1''))) =
     Inl (Error (user_message UnreachableEndpoint))
   \<and> fst (generateTags (example_env True (Inl (Error ''Connection error.'')))
          ''document text'' (example_state True None)) =
     Inl (Error (user_message GenericFailure))"
proof -
  let ?m = "''Connection error.''"
  have h1: "fst (generateTags_try (example_env True (Inl (Error ?m)))
          ''document text'' (example_state True url)) = Inl (Error ?m)" for url
    by (rule example_try)
  have h2: "includes_str ?m ''Connection error''" by simp
  have h3: "\<forall>b \<in> set unconditional_branches. \<not> contains ?m b"
    by (simp add: unconditional_branches_def contains_def)
  have g: "includes_str ''gpt-4'' ''gpt-4''" by simp
  from connection_error_needs_custom_endpoint [OF h1 h2 h3, of "Some ''http://localhost:8080/v1''"] g
  have a: "fst (generateTags (example_env True (Inl (Error ?m)))
          ''document text'' (example_state True (Some ''http://localhost:8080/v1''))) =
     Inl (Error (user_message UnreachableEndpoint))"
    by (simp add: example_self example_fields)
  from connection_error_needs_custom_endpoint [OF h1 h2 h3, of None]
  have b: "fst (generateTags (example_env True (Inl (Error ?m)))
          ''document text'' (example_state True None)) =
     Inl (Error (user_message GenericFailure))"
    by (simp add: example_self example_fields)
  from a b show ?thesis by blast
qed

text \<open>
  Claim C6 as written leaves out the branches tested earlier: with a custom base URL and
  model \<open>gpt-4\<close>, a message that contains both "Connection error" and "Invalid URL" is
  re-thrown as a bad endpoint, not as an unreachable one.
\<close>

theorem connection_error_counterexample:
  "includes_str ''Connection error: Invalid URL'' ''Connection error''
   \<and> baseURL (self (example_state True (Some ''http://localhost:8080/v1''))) \<noteq> None
   \<and> includes_str (llm.modelName (self (example_state True (Some ''http://localhost:8080/v1'')))) ''gpt-4''
   \<and> fst (generateTags (example_env True (Inl (Error ''Connection error: Invalid URL'')))
            ''document text'' (example_state True (Some ''http://localhost:8080/v1''))) =
         Inl (Error (user_message BadEndpoint))
   \<and> user_message BadEndpoint \<noteq> user_message UnreachableEndpoint"
  by (simp add: example_rethrown generateTags_catch_def example_fields example_self)

subsection \<open>C7\<close>

text \<open>
  Claim C7. A call of \<open>generateTags\<close> whose prompt has been filled invokes the model
  exactly once, whatever the outcome: after a failure it does not invoke it again. When
  that invocation fails, the call yields no tag list but one error, whose message is the
  fixed message of one of the nine kinds. This is about \<open>generateTags\<close>: the attempts the
  SDK's client makes over HTTP within the one invocation are not code of this class
  (section 1 of the specification leaves HTTP retries to the SDK) and are not counted.
\<close>

theorem one_invocation_one_classified_error:
  assumes "formatMessages (prompt (self s))
             [(''tagsString'', getTagsString e), (''document'', documentText)] = Inr messages"
  shows "invoked (snd (generateTags e documentText s)) = invoked s @ [(model (self s), messages)]
         \<and> (\<forall>error. invoke_model e (length (invoked s)) (model (self s)) messages = Inl error \<longrightarrow>
               (\<exists>k. fst (generateTags e documentText s) = Inl (Error (user_message k))))"
proof -
  have "invoked (snd (generateTags e documentText s)) = invoked s @ [(model (self s), messages)]"
    by (simp add: generateTags_state try_invoked [OF assms])
  moreover have "\<exists>k. fst (generateTags e documentText s) = Inl (Error (user_message k))"
    if "invoke_model e (length (invoked s)) (model (self s)) messages = Inl error" for error
  proof -
    from assms that have "fst (generateTags_try e documentText s) = Inl error"
      by (rule try_invocation_failed)
    then have "fst (generateTags e documentText s) = Inl (generateTags_catch (self s) error)"
      by (rule generateTags_caught)
    with catch_kind [of "self s" error] show ?thesis by auto
  qed
  ultimately show ?thesis by blast
qed

theorem one_invocation_one_classified_error_witness:
  "length (invoked (snd (generateTags
       (example_env True (Inl (Error ''The server had an error while processing your request. Sorry about that!'')))
       ''document text'' (example_state True None)))) = 1
   \<and> fst (generateTags
       (example_env True (Inl (Error ''The server had an error while processing your request. Sorry about that!'')))
       ''document text'' (example_state True None)) = Inl (Error (user_message ServerFault))"
proof -
  let ?e = "example_env True (Inl (Error ''The server had an error while processing your request. Sorry about that!''))"
  have r: "invoke_model ?e n r ms = Inl (Error ''The server had an error while processing your request. Sorry about that!'')"
    for n r ms
    by (simp add: example_env_def)
  note p = example_prompt [of True None
      "Inl (Error ''The server had an error while processing your request. Sorry about that!'')"
      "''document text''"]
  from one_invocation_one_classified_error [OF p]
  have a: "length (invoked (snd (generateTags ?e ''document text'' (example_state True None)))) = 1"
    and b: "\<exists>k. fst (generateTags ?e ''document text'' (example_state True None)) = Inl (Error (user_message k))"
    by (simp_all add: example_state_def r)
  have c: "fst (generateTags ?e ''document text'' (example_state True None)) = Inl (Error (user_message ServerFault))"
    by (simp add: example_rethrown generateTags_catch_def)
  from a c show ?thesis by blast
qed

subsection \<open>C8\<close>

text \<open>
  Claim C8. Whenever \<open>getModel\<close> returns a model, for every model information, API key
  and base URL, that model holds a chat model, and every chat model in it was constructed
  with temperature 0.0 and a timeout of 10000 milliseconds.
\<close>

theorem constructed_model_temperature_and_timeout:
  assumes "getModel e info key url = Inr r"
  shows "chat_models r \<noteq> []
         \<and> (\<forall>c \<in> set (chat_models r). temperature c = 0.0 \<and> timeout (configuration c) = 10000)"
  using getModel_cases [OF assms] by (auto split: if_splits)

theorem constructed_model_temperature_and_timeout_witness:
  "getModel (example_env True (Inl (Error ''''))) (modelInfo (self (example_state True None)))
     (apiKey (self (example_state True None))) (baseURL (self (example_state True None))) =
     Inr (model (self (example_state True None)))
   \<and> chat_models (model (self (example_state True None))) = [example_options None]
   \<and> temperature (example_options None) = 0.0
   \<and> timeout (configuration (example_options None)) = 10000"
proof -
  have c: "chat_models (model (self (example_state True None))) = [example_options None]"
    by (simp add: example_state_def example_llm_def)
  note g = example_getModel [of True "Inl (Error '''')" None]
  from constructed_model_temperature_and_timeout [OF g] c
  have "temperature (example_options None) = 0.0 \<and> timeout (configuration (example_options None)) = 10000"
    by simp
  with c g show ?thesis by blast
qed

subsection \<open>C9\<close>

text \<open>
  Claim C9. A call of \<open>generateTags\<close>, whether it returns tags or throws, leaves the
  instance as it was, and so does any sequence of calls. For an instance built by the
  constructor, \<open>baseURL\<close>, \<open>prompt\<close> and \<open>model\<close> are therefore, after any sequence of
  calls, still the constructor's argument, the result of \<open>getPrompt\<close> and the result of
  \<open>getModel\<close>.
\<close>

theorem generateTags_leaves_fields_unchanged:
  "self (snd (generateTags e documentText s)) = self s
   \<and> self (calls cs s) = self s
   \<and> (OpenAiLLM e0 mid key url = Inr (self s) \<longrightarrow>
        baseURL (self (calls cs s)) = url
        \<and> prompt (self (calls cs s)) = getPrompt
        \<and> getModel e0 (modelInfo (self s)) (apiKey (self s)) url = Inr (model (self (calls cs s))))"
  by (simp add: generateTags_self calls_self constructed_fields)

theorem generateTags_leaves_fields_unchanged_witness:
  "OpenAiLLM (example_env True (Inl (Error ''Invalid URL''))) ''gpt-4'' ''sk-example'' None =
     Inr (self (example_state True None))
   \<and> prompt (self (calls
        [(example_env True (Inl (Error ''Invalid URL'')), ''first document''),
         (example_env True (Inr (ToolArguments [''#networking''] [''#osint''])), ''second document'')]
        (example_state True None))) = getPrompt
   \<and> model (self (calls
        [(example_env True (Inl (Error ''Invalid URL'')), ''first document''),
         (example_env True (Inr (ToolArguments [''#networking''] [''#osint''])), ''second document'')]
        (example_state True None))) = model (example_llm True None)"
proof -
  let ?e1 = "example_env True (Inl (Error ''Invalid URL''))"
  let ?e2 = "example_env True (Inr (ToolArguments [''#networking''] [''#osint'']))"
  let ?cs = "[(?e1, ''first document''), (?e2, ''second document'')]"
  have h: "OpenAiLLM ?e1 ''gpt-4'' ''sk-example'' None = Inr (self (example_state True None))"
    by (simp add: example_constructed example_self)
  note t = generateTags_leaves_fields_unchanged
    [where s = "example_state True None" and cs = ?cs and ?e0.0 = ?e1 and mid = "''gpt-4''"
       and key = "''sk-example''" and url = None]
  from t have same: "self (calls ?cs (example_state True None)) = self (example_state True None)"
    by blast
  from t h have "prompt (self (calls ?cs (example_state True None))) = getPrompt"
    by blast
  moreover from same have "model (self (calls ?cs (example_state True None))) = model (example_llm True None)"
    by (simp only: example_self)
  ultimately show ?thesis using h by blast
qed

subsection \<open>C10\<close>

text \<open>
  Claim C10. If two calls of \<open>generateTags\<close>, on any documents and in any environments,
  catch an error with the same message, on instances with the same \<open>baseURL\<close> and the same
  model name, then they throw the same error; and the message thrown is one of the nine
  fixed messages of \<open>user_message\<close>, none of which is built from the caught message or
  from the document.
\<close>

theorem rethrown_error_is_function_of_message_endpoint_model:
  assumes "fst (generateTags_try e1 document1 s1) = Inl (Error m)"
    and "fst (generateTags_try e2 document2 s2) = Inl (Error m)"
    and "baseURL (self s1) = baseURL (self s2)"
    and "llm.modelName (self s1) = llm.modelName (self s2)"
  shows "fst (generateTags e1 document1 s1) = fst (generateTags e2 document2 s2)
         \<and> (\<exists>k. fst (generateTags e1 document1 s1) = Inl (Error (user_message k)))"
proof -
  have 1: "fst (generateTags e1 document1 s1) = Inl (generateTags_catch (self s1) (Error m))"
    using assms(1) by (rule generateTags_caught)
  have 2: "fst (generateTags e2 document2 s2) = Inl (generateTags_catch (self s2) (Error m))"
    using assms(2) by (rule generateTags_caught)
  have "generateTags_catch (self s1) (Error m) = generateTags_catch (self s2) (Error m)"
    using assms(3,4) by (rule catch_reads)
  with 1 2 catch_kind [of "self s1" "Error m"] show ?thesis by auto
qed

theorem rethrown_error_is_function_of_message_endpoint_model_witness:
  "fst (generateTags
          (example_env True (Inl (Error ''You exceeded your current quota, please check your plan and billing details.'')))
          ''first document'' (example_state True None))
   = fst (generateTags
          (example_env False (Inl (Error ''You exceeded your current quota, please check your plan and billing details.'')))
          ''second document, longer'' (example_state False None))
   \<and> fst (generateTags
          (example_env True (Inl (Error ''You exceeded your current quota, please check your plan and billing details.'')))
          ''first document'' (example_state True None))
     = Inl (Error (user_message QuotaExhausted))"
proof -
  let ?m = "''You exceeded your current quota, please check your plan and billing details.''"
  have h1: "fst (generateTags_try (example_env True (Inl (Error ?m))) ''first document''
               (example_state True None)) = Inl (Error ?m)"
    by (rule example_try)
  have h2: "fst (generateTags_try (example_env False (Inl (Error ?m))) ''second document, longer''
               (example_state False None)) = Inl (Error ?m)"
    by (rule example_try)
  have h3: "baseURL (self (example_state True None)) = baseURL (self (example_state False None))"
    by (simp add: example_self example_fields)
  have h4: "llm.modelName (self (example_state True None)) = llm.modelName (self (example_state False None))"
    by (simp add: example_self example_fields)
  have c: "fst (generateTags (example_env True (Inl (Error ?m))) ''first document''
               (example_state True None)) = Inl (Error (user_message QuotaExhausted))"
    by (simp add: example_rethrown generateTags_catch_def)
  from rethrown_error_is_function_of_message_endpoint_model [OF h1 h2 h3 h4] c
  show ?thesis by blast
qed

end
